theory Spec2Isabelle
  imports Main
begin

section \<open>Python strings\<close>

text \<open>
  A Python \<open>str\<close> is a sequence of Unicode code points, and \<open>len\<close>, slicing,
  \<open>str.isdigit\<close> and \<open>str.strip\<close> all work on code points. A string is therefore a
  list of code points; \<open>py\<close> reads an ASCII literal of the source.
\<close>

type_synonym pychar = nat
type_synonym pystr = "pychar list"

definition py :: "string \<Rightarrow> pystr" where
  "py s = map of_char s"

text \<open>
  \<open>str.isdigit\<close> and the whitespace test behind \<open>str.strip\<close> are fixed on ASCII:
  the digits are \<open>0\<close> to \<open>9\<close>, the whitespace characters are the code points 9 to 13
  and 28 to 32. Beyond ASCII both follow the Unicode tables of the interpreter, which
  are not part of the program: they are the two fields of \<open>unicode\<close>, and every
  function that consults them takes the tables as its first argument.
\<close>

record unicode =
  udigit :: "pychar \<Rightarrow> bool"
  uspace :: "pychar \<Rightarrow> bool"

definition isdigit :: "unicode \<Rightarrow> pychar \<Rightarrow> bool" where
  "isdigit u c = (if c < 128 then 48 \<le> c \<and> c \<le> 57 else udigit u c)"

definition isspace :: "unicode \<Rightarrow> pychar \<Rightarrow> bool" where
  "isspace u c = (if c < 128 then (9 \<le> c \<and> c \<le> 13) \<or> (28 \<le> c \<and> c \<le> 32) else uspace u c)"

text \<open>\<open>s.strip()\<close>: whitespace is dropped at both ends.\<close>

definition strip :: "unicode \<Rightarrow> pystr \<Rightarrow> pystr" where
  "strip u s = rev (dropWhile (isspace u) (rev (dropWhile (isspace u) s)))"

text \<open>\<open>xs[lo:hi]\<close> for indices that are not negative.\<close>

definition slice :: "nat \<Rightarrow> nat \<Rightarrow> 'a list \<Rightarrow> 'a list" where
  "slice lo hi xs = drop lo (take hi xs)"

text \<open>
  \<open>xs.index(x)\<close> guarded by \<open>x in xs\<close>: the position of the first occurrence,
  \<open>None\<close> when there is none.
\<close>

fun index :: "'a list \<Rightarrow> 'a \<Rightarrow> nat option" where
  "index [] x = None"
| "index (y # ys) x = (if y = x then Some 0 else map_option Suc (index ys x))"

section \<open>CSV loaders\<close>

text \<open>\<open>_format_phone_number\<close>\<close>

definition format_phone_number :: "unicode \<Rightarrow> pystr \<Rightarrow> pystr" where
  "format_phone_number u phone =
     (let digits = filter (isdigit u) phone in
      if length digits = 10
      then py ''('' @ take 3 digits @ py '') '' @ slice 3 6 digits @ py ''-'' @ drop 6 digits
      else phone)"

text \<open>
  What \<open>pd.read_csv(path, dtype=str)\<close> hands to the program is either an exception
  (its message) or a data frame: the column labels, and for each row of \<open>iterrows\<close>
  its cells, each one a string or the missing value NaN. The reader and the file system
  are outside the program, so the loaders take this outcome as their argument.
\<close>

type_synonym exn = pystr

datatype cell = NaN | Str pystr

record dataframe =
  columns :: "pystr list"
  iterrows :: "cell list list"

type_synonym dataset = "pystr list \<times> pystr list list"

text \<open>\<open>pd.notna\<close> and \<open>str\<close> on a cell.\<close>

fun notna :: "cell \<Rightarrow> bool" where
  "notna NaN = False"
| "notna (Str s) = True"

fun str :: "cell \<Rightarrow> pystr" where
  "str NaN = py ''nan''"
| "str (Str s) = s"

text \<open>
  \<open>_read_csv_safe\<close>: an exception of the reader propagates (\<open>Inl\<close>); otherwise the
  headers are the column labels and each row is converted cell by cell.
\<close>

definition read_csv_safe :: "exn + dataframe \<Rightarrow> exn + dataset" where
  "read_csv_safe src =
     (case src of
        Inl e \<Rightarrow> Inl e
      | Inr df \<Rightarrow>
          Inr (columns df,
               map (\<lambda>row. map (\<lambda>cell. if notna cell \<and> cell \<noteq> Str (py ''nan'') then str cell else []) row)
                   (iterrows df)))"

text \<open>\<open>load_schedule_from_csv\<close>; the console output is not modelled.\<close>

definition load_schedule_from_csv :: "exn + dataframe \<Rightarrow> dataset" where
  "load_schedule_from_csv src =
     (case read_csv_safe src of
        Inr (headers, rows) \<Rightarrow> (headers, rows)
      | Inl e \<Rightarrow>
          ([py ''Date'', py ''Event''],
           [[py ''09/12/2025'', py ''Opening CG Gathering''],
            [py ''09/19/2025'', py ''Discussion''],
            [py ''Error'', py ''Could not load schedule.csv - using fallback data'']]))"

text \<open>\<open>load_members_from_csv\<close>\<close>

definition load_members_from_csv :: "unicode \<Rightarrow> exn + dataframe \<Rightarrow> dataset" where
  "load_members_from_csv u src =
     (case read_csv_safe src of
        Inr (headers, rows) \<Rightarrow>
          (case index headers (py ''Contact'') of
             Some contact_index \<Rightarrow>
               (headers,
                map (\<lambda>row. if contact_index < length row \<and> row ! contact_index \<noteq> []
                           then row[contact_index := format_phone_number u (row ! contact_index)]
                           else row) rows)
           | None \<Rightarrow> (headers, rows))
      | Inl e \<Rightarrow> ([py ''Name'', py ''Role''], []))"


text \<open>The same data frame, with every cell that holds the text \<open>nan\<close> made a missing one.\<close>

definition nan_as_missing :: "dataframe \<Rightarrow> dataframe" where
  "nan_as_missing df =
     df\<lparr>iterrows := map (map (\<lambda>c. if c = Str (py ''nan'') then NaN else c)) (iterrows df)\<rparr>"

section \<open>App state\<close>

record State =
  password :: pystr
  show_error :: bool
  is_authenticated :: bool
  schedule_headers :: "pystr list"
  schedule_rows :: "pystr list list"
  members_headers :: "pystr list"
  members_rows :: "pystr list list"
  show_members :: bool
  show_schedule :: bool
  prayer_request_text :: pystr

text \<open>The class-level defaults: the state a session starts in.\<close>

definition State_init :: State where
  "State_init =
     \<lparr>password = [], show_error = False, is_authenticated = False,
      schedule_headers = [], schedule_rows = [], members_headers = [], members_rows = [],
      show_members = False, show_schedule = True, prayer_request_text = []\<rparr>"

text \<open>What an event handler returns to the framework; \<open>None\<close> is Python's \<open>None\<close>.\<close>

datatype event = Redirect pystr | Toast_error pystr | Toast_success pystr

definition members_count :: "State \<Rightarrow> nat" where
  "members_count s = length (members_rows s)"

definition toggle_members :: "State \<Rightarrow> State" where
  "toggle_members s = s\<lparr>show_members := True, show_schedule := False\<rparr>"

definition toggle_schedule :: "State \<Rightarrow> State" where
  "toggle_schedule s = s\<lparr>show_members := False, show_schedule := True\<rparr>"

definition set_prayer_request :: "pystr \<Rightarrow> State \<Rightarrow> State" where
  "set_prayer_request text s = s\<lparr>prayer_request_text := text\<rparr>"

text \<open>
  The store of \<open>submit_prayer_request\<close>: whether the directory \<open>prayer_requests\<close>
  exists, and the files in it by name. The file name comes from the clock
  (\<open>strftime\<close>) and is an argument. The \<open>try\<close> block can fail at three places:
  \<open>os.makedirs\<close> raises and nothing is created; \<open>open\<close> raises after the directory
  is there; or the write raises after \<open>open\<close> has created or truncated the file, which
  then holds whatever was written so far.
\<close>

record store =
  dir_exists :: bool
  files :: "pystr \<rightharpoonup> pystr"

datatype io_fault = Makedirs_fails exn | Open_fails exn | Write_fails exn pystr

definition submit_prayer_request ::
  "unicode \<Rightarrow> pystr \<Rightarrow> io_fault option \<Rightarrow> store \<Rightarrow> State \<Rightarrow> State \<times> store \<times> event option" where
  "submit_prayer_request u filename fault st s =
     (let text = strip u (prayer_request_text s) in
      if text = [] then (s, st, Some (Toast_error (py ''Please enter a prayer request.'')))
      else
        (case fault of
           Some (Makedirs_fails e) \<Rightarrow>
             (s, st, Some (Toast_error (py ''Error saving prayer request: '' @ e)))
         | Some (Open_fails e) \<Rightarrow>
             (s, st\<lparr>dir_exists := True\<rparr>,
              Some (Toast_error (py ''Error saving prayer request: '' @ e)))
         | Some (Write_fails e written) \<Rightarrow>
             (s, st\<lparr>dir_exists := True, files := (files st)(filename \<mapsto> written)\<rparr>,
              Some (Toast_error (py ''Error saving prayer request: '' @ e)))
         | None \<Rightarrow>
             (s\<lparr>prayer_request_text := []\<rparr>,
              st\<lparr>dir_exists := True, files := (files st)(filename \<mapsto> text)\<rparr>,
              Some (Toast_success (py ''Prayer request submitted and saved.'')))))"

text \<open>
  \<open>load_data_on_mount\<close>, with the outcome the reader would give for each of the two
  files. Besides the new state it returns the calls it made to the two loaders, in order.
\<close>

datatype loader_call = Load_schedule | Load_members

definition load_data_on_mount ::
  "unicode \<Rightarrow> exn + dataframe \<Rightarrow> exn + dataframe \<Rightarrow> State \<Rightarrow> State \<times> loader_call list" where
  "load_data_on_mount u schedule_src members_src s =
     (let (s1, calls1) =
            (if schedule_headers s = [] \<or> schedule_rows s = []
             then (case load_schedule_from_csv schedule_src of
                     (h, r) \<Rightarrow> (s\<lparr>schedule_headers := h, schedule_rows := r\<rparr>, [Load_schedule]))
             else (s, []));
          (s2, calls2) =
            (if members_headers s1 = [] \<or> members_rows s1 = []
             then (case load_members_from_csv u members_src of
                     (h, r) \<Rightarrow> (s1\<lparr>members_headers := h, members_rows := r\<rparr>, [Load_members]))
             else (s1, []))
      in (s2, calls1 @ calls2))"

definition set_password :: "pystr \<Rightarrow> State \<Rightarrow> State" where
  "set_password v s =
     (let s1 = s\<lparr>password := v\<rparr> in
      if show_error s1 then s1\<lparr>show_error := False\<rparr> else s1)"

definition submit_password :: "State \<Rightarrow> State \<times> event option" where
  "submit_password s =
     (if password s = py ''2ndstreet''
      then (s\<lparr>is_authenticated := True\<rparr>, Some (Redirect (py ''/home'')))
      else (s\<lparr>show_error := True\<rparr>, None))"

definition handle_key_down :: "pystr \<Rightarrow> State \<Rightarrow> State \<times> event option" where
  "handle_key_down key s = (if key = py ''Enter'' then submit_password s else (s, None))"

definition logout :: "State \<Rightarrow> State \<times> event option" where
  "logout s =
     (s\<lparr>is_authenticated := False, password := [], show_error := False\<rparr>,
      Some (Redirect (py ''/'')))"

definition check_auth_and_redirect :: "State \<Rightarrow> State \<times> event option" where
  "check_auth_and_redirect s =
     (if \<not> is_authenticated s then (s, Some (Redirect (py ''/''))) else (s, None))"

text \<open>
  The states a session can be in: the initial one, and those any event handler of
  \<open>State\<close> leads to from there, whatever the reader, the file system and the clock do.
\<close>

inductive reachable :: "unicode \<Rightarrow> State \<Rightarrow> bool" for u :: unicode where
  r_init: "reachable u State_init"
| r_toggle_members: "reachable u s \<Longrightarrow> reachable u (toggle_members s)"
| r_toggle_schedule: "reachable u s \<Longrightarrow> reachable u (toggle_schedule s)"
| r_set_prayer_request: "reachable u s \<Longrightarrow> reachable u (set_prayer_request text s)"
| r_submit_prayer_request:
    "reachable u s \<Longrightarrow> reachable u (fst (submit_prayer_request u filename fault st s))"
| r_load_data_on_mount:
    "reachable u s \<Longrightarrow> reachable u (fst (load_data_on_mount u schedule_src members_src s))"
| r_set_password: "reachable u s \<Longrightarrow> reachable u (set_password v s)"
| r_submit_password: "reachable u s \<Longrightarrow> reachable u (fst (submit_password s))"
| r_handle_key_down: "reachable u s \<Longrightarrow> reachable u (fst (handle_key_down key s))"
| r_logout: "reachable u s \<Longrightarrow> reachable u (fst (logout s))"
| r_check_auth_and_redirect: "reachable u s \<Longrightarrow> reachable u (fst (check_auth_and_redirect s))"

section \<open>Loading the tables\<close>

lemma read_csv_safe_Inr:
  "read_csv_safe (Inr df) =
     Inr (columns df,
          map (map (\<lambda>c. case c of NaN \<Rightarrow> [] | Str s \<Rightarrow> if s = py ''nan'' then [] else s))
              (iterrows df))"
proof -
  have "(\<lambda>cell. if notna cell \<and> cell \<noteq> Str (py ''nan'') then str cell else []) =
        (\<lambda>c. case c of NaN \<Rightarrow> [] | Str s \<Rightarrow> if s = py ''nan'' then [] else s)"
    by (rule ext) (simp split: cell.split)
  then show ?thesis
    by (simp add: read_csv_safe_def)
qed




lemma read_nan_as_missing: "read_csv_safe (Inr (nan_as_missing df)) = read_csv_safe (Inr df)"
  by (simp add: read_csv_safe_def nan_as_missing_def comp_def)

text \<open>
  C2. When the source cannot be read (the reader raises, whatever the exception),
  \<open>_read_csv_safe\<close> lets the exception through, and each loader catches it and returns
  its fallback table as written in the source: the two-column, three-row table for the
  schedule, the headers \<open>Name\<close> and \<open>Role\<close> with no rows for the members.
\<close>

theorem load_failure_returns_fallback:
  "read_csv_safe (Inl e) = Inl e \<and>
   load_schedule_from_csv (Inl e) =
     ([py ''Date'', py ''Event''],
      [[py ''09/12/2025'', py ''Opening CG Gathering''],
       [py ''09/19/2025'', py ''Discussion''],
       [py ''Error'', py ''Could not load schedule.csv - using fallback data'']]) \<and>
   load_members_from_csv u (Inl e) = ([py ''Name'', py ''Role''], [])"
  by (simp add: read_csv_safe_def load_schedule_from_csv_def load_members_from_csv_def)




text \<open>
  C10. \<open>_read_csv_safe\<close> turns a missing cell and a cell holding exactly the text
  \<open>nan\<close> into the empty string, and returns every other cell as it is. So the table
  read from a source and the table read from the same source with each \<open>nan\<close> text made
  a missing cell are equal, from \<open>_read_csv_safe\<close> and from both loaders.
\<close>

theorem nan_text_reads_as_missing:
  "read_csv_safe (Inr df) =
     Inr (columns df,
          map (map (\<lambda>c. case c of NaN \<Rightarrow> [] | Str s \<Rightarrow> if s = py ''nan'' then [] else s))
              (iterrows df))
   \<and> read_csv_safe (Inr (nan_as_missing df)) = read_csv_safe (Inr df)
   \<and> load_schedule_from_csv (Inr (nan_as_missing df)) = load_schedule_from_csv (Inr df)
   \<and> load_members_from_csv u (Inr (nan_as_missing df)) = load_members_from_csv u (Inr df)"
  using read_csv_safe_Inr [of df] read_nan_as_missing [of df]
  by (simp add: load_schedule_from_csv_def load_members_from_csv_def)

text \<open>
  The theorem on a table whose first row holds the text \<open>nan\<close> and a missing cell: both
  come back empty, while \<open>Nancy\<close> and \<open>NaN\<close> in the second row are kept.
\<close>

theorem nan_text_reads_as_missing_witness:
  "read_csv_safe
     (Inr \<lparr>columns = [py ''Name'', py ''Note''],
           iterrows = [[Str (py ''nan''), NaN], [Str (py ''Nancy''), Str (py ''NaN'')]]\<rparr>) =
   Inr ([py ''Name'', py ''Note''], [[[], []], [py ''Nancy'', py ''NaN'']])"
  using nan_text_reads_as_missing
    [of "\<lparr>columns = [py ''Name'', py ''Note''],
          iterrows = [[Str (py ''nan''), NaN], [Str (py ''Nancy''), Str (py ''NaN'')]]\<rparr>"]
  by (simp add: py_def)

section \<open>Phone numbers\<close>

lemma isdigit_punctuation:
  "\<not> isdigit u 40" "\<not> isdigit u 41" "\<not> isdigit u 32" "\<not> isdigit u 45"
  by (simp_all add: isdigit_def)

lemma filter_isdigit_sub:
  "set xs \<subseteq> set (filter (isdigit u) s) \<Longrightarrow> filter (isdigit u) xs = xs"
  by (induction xs) auto

lemma slice_3_6: "slice 3 6 d = take 3 (drop 3 d)"
  by (simp add: slice_def drop_take)

lemma three_pieces: "take 3 d @ slice 3 6 d @ drop 6 d = d"
proof -
  have "take 3 (drop 3 d) @ drop 3 (drop 3 d) = drop 3 d"
    by (rule append_take_drop_id)
  then have "take 3 (drop 3 d) @ drop 6 d = drop 3 d"
    by simp
  then show ?thesis
    by (simp add: slice_3_6)
qed

lemma digits_of_formatted:
  assumes "d = filter (isdigit u) s"
  shows "filter (isdigit u)
           (py ''('' @ take 3 d @ py '') '' @ slice 3 6 d @ py ''-'' @ drop 6 d) = d"
proof -
  have a: "filter (isdigit u) (take 3 d) = take 3 d"
    using assms by (intro filter_isdigit_sub) (auto dest: in_set_takeD)
  have b: "filter (isdigit u) (slice 3 6 d) = slice 3 6 d"
    using assms set_take_subset [of 3 "drop 3 d"] set_drop_subset [of 3 d]
    by (intro filter_isdigit_sub) (auto simp: slice_3_6)
  have c: "filter (isdigit u) (drop 6 d) = drop 6 d"
    using assms by (intro filter_isdigit_sub) (auto dest: in_set_dropD)
  show ?thesis
    by (simp add: py_def isdigit_punctuation a b c three_pieces)
qed

lemma ten_digits:
  assumes "length d = 10"
  shows "take 3 d = [d ! 0, d ! 1, d ! 2] \<and> slice 3 6 d = [d ! 3, d ! 4, d ! 5] \<and>
         drop 6 d = [d ! 6, d ! 7, d ! 8, d ! 9]"
proof -
  from assms obtain a b c e f g h i j k where "d = [a, b, c, e, f, g, h, i, j, k]"
    by (auto simp: numeral_eq_Suc length_Suc_conv)
  then show ?thesis
    by (simp add: slice_3_6)
qed

text \<open>
  C7. \<open>_format_phone_number\<close> keeps the characters of its argument that are digits
  (\<open>str.isdigit\<close>). When exactly ten remain it returns an opening parenthesis, the first
  three digits, a closing parenthesis and a space, the next three digits, a hyphen and
  the last four digits; otherwise it returns its argument as it is. So
  \<open>1234567890\<close> and \<open>123-456-7890\<close> both give \<open>(123) 456-7890\<close>, and \<open>12345\<close> is
  returned unchanged.
\<close>

theorem format_phone_number_spec:
  "(let d = filter (isdigit u) s in
      (length d = 10 \<longrightarrow>
         format_phone_number u s =
           py ''('' @ [d ! 0, d ! 1, d ! 2] @ py '') '' @ [d ! 3, d ! 4, d ! 5] @ py ''-'' @
           [d ! 6, d ! 7, d ! 8, d ! 9]) \<and>
      (length d \<noteq> 10 \<longrightarrow> format_phone_number u s = s))
   \<and> format_phone_number u (py ''1234567890'') = py ''(123) 456-7890''
   \<and> format_phone_number u (py ''123-456-7890'') = py ''(123) 456-7890''
   \<and> format_phone_number u (py ''12345'') = py ''12345''"
proof -
  have examples:
    "format_phone_number u (py ''1234567890'') = py ''(123) 456-7890''"
    "format_phone_number u (py ''123-456-7890'') = py ''(123) 456-7890''"
    "format_phone_number u (py ''12345'') = py ''12345''"
    by (simp_all add: format_phone_number_def py_def isdigit_def slice_def)
  have ten: "length (filter (isdigit u) s) = 10 \<Longrightarrow>
      format_phone_number u s =
        (let d = filter (isdigit u) s in
         py ''('' @ [d ! 0, d ! 1, d ! 2] @ py '') '' @ [d ! 3, d ! 4, d ! 5] @ py ''-'' @
         [d ! 6, d ! 7, d ! 8, d ! 9])"
    using ten_digits [of "filter (isdigit u) s"]
    by (simp add: format_phone_number_def Let_def)
  have other: "length (filter (isdigit u) s) \<noteq> 10 \<Longrightarrow> format_phone_number u s = s"
    by (simp add: format_phone_number_def Let_def)
  show ?thesis
    using examples ten other by (simp add: Let_def)
qed

text \<open>
  The theorem at two inputs, under tables that make the Arabic-Indic digit one (code
  point 1633) a digit: eleven digits leave the string alone, ten digits between dots are
  reformatted.
\<close>

theorem format_phone_number_spec_witness:
  "format_phone_number \<lparr>udigit = (\<lambda>c. c = 1633), uspace = (\<lambda>c. False)\<rparr>
     (py ''+1 (555) 010-9999'') = py ''+1 (555) 010-9999''
   \<and> format_phone_number \<lparr>udigit = (\<lambda>c. c = 1633), uspace = (\<lambda>c. False)\<rparr>
     (py ''555.010.9999'') = py ''(555) 010-9999''"
  using
    format_phone_number_spec
      [of "\<lparr>udigit = (\<lambda>c. c = 1633), uspace = (\<lambda>c. False)\<rparr>" "py ''+1 (555) 010-9999''"]
    format_phone_number_spec
      [of "\<lparr>udigit = (\<lambda>c. c = 1633), uspace = (\<lambda>c. False)\<rparr>" "py ''555.010.9999''"]
  by (simp add: py_def isdigit_def Let_def)

text \<open>
  C8. \<open>_format_phone_number\<close> is idempotent: formatting a string that has already been
  through it changes nothing, for every string and whatever the Unicode tables count as
  a digit beyond ASCII.
\<close>

theorem format_phone_number_idempotent:
  "format_phone_number u (format_phone_number u s) = format_phone_number u s"
proof (cases "length (filter (isdigit u) s) = 10")
  case True
  then show ?thesis
    using digits_of_formatted [of "filter (isdigit u) s" u s]
    by (simp add: format_phone_number_def Let_def)
next
  case False
  then show ?thesis
    by (simp add: format_phone_number_def Let_def)
qed

section \<open>Session state\<close>

lemma submit_prayer_request_blank:
  "strip u (prayer_request_text s) = [] \<Longrightarrow>
   submit_prayer_request u filename fault st s =
     (s, st, Some (Toast_error (py ''Please enter a prayer request.'')))"
  by (simp add: submit_prayer_request_def)

lemma submit_prayer_request_saved:
  "strip u (prayer_request_text s) \<noteq> [] \<Longrightarrow>
   submit_prayer_request u filename None st s =
     (s\<lparr>prayer_request_text := []\<rparr>,
      st\<lparr>dir_exists := True, files := (files st)(filename \<mapsto> strip u (prayer_request_text s))\<rparr>,
      Some (Toast_success (py ''Prayer request submitted and saved.'')))"
  by (simp add: submit_prayer_request_def)

lemma submit_prayer_request_fault:
  "strip u (prayer_request_text s) \<noteq> [] \<Longrightarrow>
   fst (submit_prayer_request u filename (Some f) st s) = s \<and>
   (\<exists>e. snd (snd (submit_prayer_request u filename (Some f) st s)) =
      Some (Toast_error (py ''Error saving prayer request: '' @ e)))"
  by (cases f) (simp_all add: submit_prayer_request_def)

lemma submit_prayer_request_fields:
  "password (fst (submit_prayer_request u filename fault st s)) = password s"
  "show_error (fst (submit_prayer_request u filename fault st s)) = show_error s"
  "show_members (fst (submit_prayer_request u filename fault st s)) = show_members s"
  "show_schedule (fst (submit_prayer_request u filename fault st s)) = show_schedule s"
  by (simp_all add: submit_prayer_request_def Let_def split: option.split io_fault.split)

lemma load_data_on_mount_fields:
  "password (fst (load_data_on_mount u a b s)) = password s"
  "show_error (fst (load_data_on_mount u a b s)) = show_error s"
  "show_members (fst (load_data_on_mount u a b s)) = show_members s"
  "show_schedule (fst (load_data_on_mount u a b s)) = show_schedule s"
  by (simp_all add: load_data_on_mount_def Let_def case_prod_beta)

lemma reachable_one_view: "reachable u s \<Longrightarrow> show_members s \<noteq> show_schedule s"
proof (induction rule: reachable.induct)
  case r_init
  show ?case by (simp add: State_init_def)
next
  case (r_submit_prayer_request s filename fault st)
  then show ?case by (simp add: submit_prayer_request_fields)
next
  case (r_load_data_on_mount s schedule_src members_src)
  then show ?case by (simp add: load_data_on_mount_fields)
qed (simp_all add: toggle_members_def toggle_schedule_def set_prayer_request_def set_password_def
      submit_password_def handle_key_down_def logout_def check_auth_and_redirect_def Let_def)





text \<open>
  C6. In every state the event handlers can reach from the initial state exactly one of
  \<open>show_members\<close> and \<open>show_schedule\<close> is set. \<open>toggle_members\<close> sets the first and
  clears the second, \<open>toggle_schedule\<close> does the opposite, in every state.
\<close>

theorem one_view_active:
  "(reachable u s \<longrightarrow> show_members s \<noteq> show_schedule s) \<and>
   show_members (toggle_members s) \<and> \<not> show_schedule (toggle_members s) \<and>
   show_schedule (toggle_schedule s) \<and> \<not> show_members (toggle_schedule s)"
  using reachable_one_view [of u s] by (simp add: toggle_members_def toggle_schedule_def)

text \<open>
  The theorem after \<open>toggle_members\<close> and then \<open>toggle_schedule\<close> in a fresh
  session.
\<close>

theorem one_view_active_witness:
  "reachable \<lparr>udigit = (\<lambda>c. False), uspace = (\<lambda>c. False)\<rparr> (toggle_schedule (toggle_members State_init))
   \<and> show_schedule (toggle_schedule (toggle_members State_init))
   \<and> \<not> show_members (toggle_schedule (toggle_members State_init))
   \<and> show_members (toggle_members State_init) \<noteq> show_schedule (toggle_members State_init)"
proof -
  let ?u = "\<lparr>udigit = (\<lambda>c. False), uspace = (\<lambda>c. False)\<rparr>"
  have "reachable ?u (toggle_members State_init)"
    by (intro reachable.intros)
  moreover from this have "reachable ?u (toggle_schedule (toggle_members State_init))"
    by (rule r_toggle_schedule)
  ultimately show ?thesis
    using one_view_active [of ?u "toggle_members State_init"]
      one_view_active [of ?u "toggle_schedule (toggle_members State_init)"]
    by simp
qed

section \<open>Prayer requests\<close>

text \<open>
  C4, as the claim states it, fails on two counts. A text that is not blank creates no
  record and is not cleared when the storage fails: here \<open>os.makedirs\<close> raises, the store
  stays empty and the draft stays. And a successful write creates no new record when one
  of the same second exists: the file opened for writing replaces it.
\<close>

theorem submit_prayer_request_counterexample:
  "submit_prayer_request \<lparr>udigit = (\<lambda>c. False), uspace = (\<lambda>c. False)\<rparr>
     (py ''11_04_2026_10_00_00.txt'') (Some (Makedirs_fails (py ''Permission denied'')))
     \<lparr>dir_exists = False, files = Map.empty\<rparr> (State_init\<lparr>prayer_request_text := py ''hi''\<rparr>) =
   (State_init\<lparr>prayer_request_text := py ''hi''\<rparr>, \<lparr>dir_exists = False, files = Map.empty\<rparr>,
    Some (Toast_error (py ''Error saving prayer request: Permission denied'')))
   \<and> dom (files (fst (snd (submit_prayer_request \<lparr>udigit = (\<lambda>c. False), uspace = (\<lambda>c. False)\<rparr>
     (py ''11_04_2026_10_00_00.txt'') None
     \<lparr>dir_exists = True, files = [py ''11_04_2026_10_00_00.txt'' \<mapsto> py ''old'']\<rparr>
     (State_init\<lparr>prayer_request_text := py ''hi''\<rparr>))))) = {py ''11_04_2026_10_00_00.txt''}"
  by (simp add: submit_prayer_request_def strip_def isspace_def State_init_def py_def)

text \<open>
  C4, amended. When the draft is empty after \<open>strip\<close>, \<open>submit_prayer_request\<close>
  leaves the store and the state as they are and returns the error toast asking for a
  request. When it is not, and directory creation and the write succeed, the directory
  exists, the file named by the time stamp holds exactly the stripped text, every other
  file is as before, the draft is empty and the success toast is returned; the file is a
  new record, the only new one, when no file of that name existed, and replaces the
  record of that name otherwise.
\<close>

theorem submit_prayer_request_spec:
  "(strip u (prayer_request_text s) = [] \<longrightarrow>
      submit_prayer_request u filename fault st s =
        (s, st, Some (Toast_error (py ''Please enter a prayer request.'')))) \<and>
   (strip u (prayer_request_text s) \<noteq> [] \<longrightarrow>
      fst (submit_prayer_request u filename None st s) = s\<lparr>prayer_request_text := []\<rparr> \<and>
      files (fst (snd (submit_prayer_request u filename None st s))) =
        (files st)(filename \<mapsto> strip u (prayer_request_text s)) \<and>
      dir_exists (fst (snd (submit_prayer_request u filename None st s))) \<and>
      snd (snd (submit_prayer_request u filename None st s)) =
        Some (Toast_success (py ''Prayer request submitted and saved.'')) \<and>
      (filename \<notin> dom (files st) \<longrightarrow>
         dom (files (fst (snd (submit_prayer_request u filename None st s)))) - dom (files st) = {filename}))"
  using submit_prayer_request_blank [of u s filename fault st]
    submit_prayer_request_saved [of u s filename st]
  by auto

text \<open>
  The theorem on a draft of a space, a no-break space and a line feed, which is blank
  under tables that count the no-break space as whitespace, and on a draft with text
  between spaces.
\<close>

theorem submit_prayer_request_spec_witness:
  "strip \<lparr>udigit = (\<lambda>c. False), uspace = (\<lambda>c. c = 160)\<rparr> [32, 160, 10] = []
   \<and> submit_prayer_request \<lparr>udigit = (\<lambda>c. False), uspace = (\<lambda>c. c = 160)\<rparr>
       (py ''11_04_2026_10_00_00.txt'') None \<lparr>dir_exists = False, files = Map.empty\<rparr>
       (State_init\<lparr>prayer_request_text := [32, 160, 10]\<rparr>) =
     (State_init\<lparr>prayer_request_text := [32, 160, 10]\<rparr>, \<lparr>dir_exists = False, files = Map.empty\<rparr>,
      Some (Toast_error (py ''Please enter a prayer request.'')))
   \<and> strip \<lparr>udigit = (\<lambda>c. False), uspace = (\<lambda>c. c = 160)\<rparr> (py '' hi there  '') = py ''hi there''
   \<and> files (fst (snd (submit_prayer_request \<lparr>udigit = (\<lambda>c. False), uspace = (\<lambda>c. c = 160)\<rparr>
       (py ''11_04_2026_10_00_00.txt'') None \<lparr>dir_exists = False, files = Map.empty\<rparr>
       (State_init\<lparr>prayer_request_text := py '' hi there  ''\<rparr>))))
      = [py ''11_04_2026_10_00_00.txt'' \<mapsto> py ''hi there'']
   \<and> prayer_request_text (fst (submit_prayer_request \<lparr>udigit = (\<lambda>c. False), uspace = (\<lambda>c. c = 160)\<rparr>
       (py ''11_04_2026_10_00_00.txt'') None \<lparr>dir_exists = False, files = Map.empty\<rparr>
       (State_init\<lparr>prayer_request_text := py '' hi there  ''\<rparr>))) = []"
proof -
  let ?u = "\<lparr>udigit = (\<lambda>c. False), uspace = (\<lambda>c. c = 160)\<rparr>"
  let ?st = "\<lparr>dir_exists = False, files = Map.empty\<rparr>"
  let ?fn = "py ''11_04_2026_10_00_00.txt''"
  have a: "strip ?u [32, 160, 10] = []"
    by (simp add: strip_def isspace_def)
  have b: "strip ?u (py '' hi there  '') = py ''hi there''"
    by (simp add: strip_def isspace_def py_def)
  have c: "py ''hi there'' \<noteq> []"
    by (simp add: py_def)
  show ?thesis
    using a b c
      submit_prayer_request_spec [of ?u "State_init\<lparr>prayer_request_text := [32, 160, 10]\<rparr>" ?fn None ?st]
      submit_prayer_request_spec [of ?u "State_init\<lparr>prayer_request_text := py '' hi there  ''\<rparr>" ?fn None ?st]
    by simp
qed

text \<open>
  C9. Whenever \<open>submit_prayer_request\<close> fails, by the blank-text check or by an
  exception of directory creation, \<open>open\<close> or the write, the state, and so the draft, is
  unchanged and an error toast is returned. The state changes only when the text is not
  blank and nothing raised: then the draft is empty, the file holds the stripped text and
  the success toast is returned.
\<close>

theorem submit_prayer_request_atomic:
  "((strip u (prayer_request_text s) = [] \<or> fault \<noteq> None) \<longrightarrow>
      fst (submit_prayer_request u filename fault st s) = s \<and>
      (\<exists>m. snd (snd (submit_prayer_request u filename fault st s)) = Some (Toast_error m))) \<and>
   (fst (submit_prayer_request u filename fault st s) \<noteq> s \<longrightarrow>
      strip u (prayer_request_text s) \<noteq> [] \<and> fault = None \<and>
      prayer_request_text (fst (submit_prayer_request u filename fault st s)) = [] \<and>
      files (fst (snd (submit_prayer_request u filename fault st s))) filename =
        Some (strip u (prayer_request_text s)) \<and>
      snd (snd (submit_prayer_request u filename fault st s)) =
        Some (Toast_success (py ''Prayer request submitted and saved.'')))"
proof (cases "strip u (prayer_request_text s) = []")
  case True
  then show ?thesis
    using submit_prayer_request_blank [of u s filename fault st] by simp
next
  case False
  show ?thesis
  proof (cases fault)
    case None
    with False show ?thesis
      using submit_prayer_request_saved [of u s filename st] by simp
  next
    case (Some f)
    with False show ?thesis
      using submit_prayer_request_fault [of u s filename f st] by auto
  qed
qed

text \<open>
  The theorem on a write that fails after two characters, and on a successful one.
\<close>

theorem submit_prayer_request_atomic_witness:
  "submit_prayer_request \<lparr>udigit = (\<lambda>c. False), uspace = (\<lambda>c. False)\<rparr>
     (py ''11_04_2026_10_00_00.txt'') (Some (Write_fails (py ''No space left on device'') (py ''pl'')))
     \<lparr>dir_exists = True, files = Map.empty\<rparr> (State_init\<lparr>prayer_request_text := py ''please pray''\<rparr>) =
   (State_init\<lparr>prayer_request_text := py ''please pray''\<rparr>,
    \<lparr>dir_exists = True, files = [py ''11_04_2026_10_00_00.txt'' \<mapsto> py ''pl'']\<rparr>,
    Some (Toast_error (py ''Error saving prayer request: No space left on device'')))
   \<and> fst (submit_prayer_request \<lparr>udigit = (\<lambda>c. False), uspace = (\<lambda>c. False)\<rparr>
     (py ''11_04_2026_10_00_00.txt'') None
     \<lparr>dir_exists = True, files = Map.empty\<rparr> (State_init\<lparr>prayer_request_text := py ''please pray''\<rparr>))
     \<noteq> State_init\<lparr>prayer_request_text := py ''please pray''\<rparr>
   \<and> files (fst (snd (submit_prayer_request \<lparr>udigit = (\<lambda>c. False), uspace = (\<lambda>c. False)\<rparr>
     (py ''11_04_2026_10_00_00.txt'') None
     \<lparr>dir_exists = True, files = Map.empty\<rparr> (State_init\<lparr>prayer_request_text := py ''please pray''\<rparr>))))
     (py ''11_04_2026_10_00_00.txt'') = Some (py ''please pray'')"
proof -
  let ?u = "\<lparr>udigit = (\<lambda>c. False), uspace = (\<lambda>c. False)\<rparr>"
  let ?st = "\<lparr>dir_exists = True, files = Map.empty\<rparr>"
  let ?fn = "py ''11_04_2026_10_00_00.txt''"
  let ?s = "State_init\<lparr>prayer_request_text := py ''please pray''\<rparr>"
  have a: "strip ?u (py ''please pray'') = py ''please pray''"
    by (simp add: strip_def isspace_def py_def)
  have b: "submit_prayer_request ?u ?fn (Some (Write_fails (py ''No space left on device'') (py ''pl''))) ?st ?s =
     (?s, \<lparr>dir_exists = True, files = [?fn \<mapsto> py ''pl'']\<rparr>,
      Some (Toast_error (py ''Error saving prayer request: No space left on device'')))"
    by (simp add: submit_prayer_request_def strip_def isspace_def State_init_def py_def)
  have c: "fst (submit_prayer_request ?u ?fn None ?st ?s) \<noteq> ?s"
    by (simp add: submit_prayer_request_def strip_def isspace_def State_init_def py_def)
  show ?thesis
    using a b c submit_prayer_request_atomic [of ?u ?s "Some (Write_fails (py ''No space left on device'') (py ''pl''))" ?fn ?st]
      submit_prayer_request_atomic [of ?u ?s None ?fn ?st]
    by simp
qed

section \<open>Loading on mount\<close>

lemma load_data_on_mount_calls:
  "snd (load_data_on_mount u a b s) =
     (if schedule_headers s = [] \<or> schedule_rows s = [] then [Load_schedule] else []) @
     (if members_headers s = [] \<or> members_rows s = [] then [Load_members] else [])"
  by (simp add: load_data_on_mount_def Let_def case_prod_beta)

lemma load_data_on_mount_schedule:
  "schedule_headers (fst (load_data_on_mount u a b s)) =
     (if schedule_headers s = [] \<or> schedule_rows s = [] then fst (load_schedule_from_csv a)
      else schedule_headers s)"
  "schedule_rows (fst (load_data_on_mount u a b s)) =
     (if schedule_headers s = [] \<or> schedule_rows s = [] then snd (load_schedule_from_csv a)
      else schedule_rows s)"
  by (simp_all add: load_data_on_mount_def Let_def case_prod_beta)

lemma load_data_on_mount_members:
  "members_headers (fst (load_data_on_mount u a b s)) =
     (if members_headers s = [] \<or> members_rows s = [] then fst (load_members_from_csv u b)
      else members_headers s)"
  "members_rows (fst (load_data_on_mount u a b s)) =
     (if members_headers s = [] \<or> members_rows s = [] then snd (load_members_from_csv u b)
      else members_rows s)"
  by (simp_all add: load_data_on_mount_def Let_def case_prod_beta)

lemma fallback_shapes:
  "fst (load_schedule_from_csv (Inl e)) \<noteq> []" "snd (load_schedule_from_csv (Inl e)) \<noteq> []"
  "fst (load_members_from_csv u (Inl e)) \<noteq> []" "snd (load_members_from_csv u (Inl e)) = []"
  by (simp_all add: load_schedule_from_csv_def load_members_from_csv_def read_csv_safe_def)

text \<open>
  C5, as the claim states it, fails: \<open>load_data_on_mount\<close> loads a table again
  whenever its headers or its rows are empty. When neither file can be read, the members
  fallback has headers and no rows, so two calls in a row in a fresh session call the
  members loader twice.
\<close>

theorem load_data_on_mount_twice_counterexample:
  "count_list
     (snd (load_data_on_mount \<lparr>udigit = (\<lambda>c. False), uspace = (\<lambda>c. False)\<rparr>
             (Inl (py ''No such file'')) (Inl (py ''No such file'')) State_init) @
      snd (load_data_on_mount \<lparr>udigit = (\<lambda>c. False), uspace = (\<lambda>c. False)\<rparr>
             (Inl (py ''No such file'')) (Inl (py ''No such file''))
             (fst (load_data_on_mount \<lparr>udigit = (\<lambda>c. False), uspace = (\<lambda>c. False)\<rparr>
                     (Inl (py ''No such file'')) (Inl (py ''No such file'')) State_init))))
     Load_members = 2"
  by (simp add: load_data_on_mount_calls load_data_on_mount_members fallback_shapes State_init_def)

text \<open>
  C5, amended. The second of two calls in a row loads a table exactly when the first
  call left it without headers or without rows. A table left with at least one header
  and one row is loaded at most once over the two calls and the second call keeps it as
  it is. A members table left without rows, as after a failed read or a read of a file
  with a header line only, is loaded by both calls.
\<close>

theorem load_data_on_mount_twice:
  "(Load_schedule \<in> set (snd (load_data_on_mount u a' b' (fst (load_data_on_mount u a b s)))) \<longleftrightarrow>
      schedule_headers (fst (load_data_on_mount u a b s)) = [] \<or>
      schedule_rows (fst (load_data_on_mount u a b s)) = []) \<and>
   (Load_members \<in> set (snd (load_data_on_mount u a' b' (fst (load_data_on_mount u a b s)))) \<longleftrightarrow>
      members_headers (fst (load_data_on_mount u a b s)) = [] \<or>
      members_rows (fst (load_data_on_mount u a b s)) = []) \<and>
   (schedule_headers (fst (load_data_on_mount u a b s)) \<noteq> [] \<and>
    schedule_rows (fst (load_data_on_mount u a b s)) \<noteq> [] \<longrightarrow>
      count_list (snd (load_data_on_mount u a b s) @
                  snd (load_data_on_mount u a' b' (fst (load_data_on_mount u a b s)))) Load_schedule \<le> 1 \<and>
      schedule_headers (fst (load_data_on_mount u a' b' (fst (load_data_on_mount u a b s)))) =
        schedule_headers (fst (load_data_on_mount u a b s)) \<and>
      schedule_rows (fst (load_data_on_mount u a' b' (fst (load_data_on_mount u a b s)))) =
        schedule_rows (fst (load_data_on_mount u a b s))) \<and>
   (members_headers (fst (load_data_on_mount u a b s)) \<noteq> [] \<and>
    members_rows (fst (load_data_on_mount u a b s)) \<noteq> [] \<longrightarrow>
      count_list (snd (load_data_on_mount u a b s) @
                  snd (load_data_on_mount u a' b' (fst (load_data_on_mount u a b s)))) Load_members \<le> 1 \<and>
      members_headers (fst (load_data_on_mount u a' b' (fst (load_data_on_mount u a b s)))) =
        members_headers (fst (load_data_on_mount u a b s)) \<and>
      members_rows (fst (load_data_on_mount u a' b' (fst (load_data_on_mount u a b s)))) =
        members_rows (fst (load_data_on_mount u a b s))) \<and>
   (members_rows (fst (load_data_on_mount u a b s)) = [] \<longrightarrow>
      count_list (snd (load_data_on_mount u a b s) @
                  snd (load_data_on_mount u a' b' (fst (load_data_on_mount u a b s)))) Load_members = 2)"
proof -
  let ?s1 = "fst (load_data_on_mount u a b s)"
  have c2: "snd (load_data_on_mount u a' b' ?s1) =
     (if schedule_headers ?s1 = [] \<or> schedule_rows ?s1 = [] then [Load_schedule] else []) @
     (if members_headers ?s1 = [] \<or> members_rows ?s1 = [] then [Load_members] else [])"
    by (rule load_data_on_mount_calls)
  have c1: "snd (load_data_on_mount u a b s) =
     (if schedule_headers s = [] \<or> schedule_rows s = [] then [Load_schedule] else []) @
     (if members_headers s = [] \<or> members_rows s = [] then [Load_members] else [])"
    by (rule load_data_on_mount_calls)
  have m: "members_rows ?s1 = [] \<Longrightarrow> members_headers s = [] \<or> members_rows s = []"
    by (simp add: load_data_on_mount_members split: if_splits)
  have p1: "Load_schedule \<in> set (snd (load_data_on_mount u a' b' ?s1)) \<longleftrightarrow>
      schedule_headers ?s1 = [] \<or> schedule_rows ?s1 = []"
    unfolding c2 by simp
  have p2: "Load_members \<in> set (snd (load_data_on_mount u a' b' ?s1)) \<longleftrightarrow>
      members_headers ?s1 = [] \<or> members_rows ?s1 = []"
    unfolding c2 by simp
  have p3: "count_list (snd (load_data_on_mount u a b s) @ snd (load_data_on_mount u a' b' ?s1)) Load_schedule \<le> 1"
    if "schedule_headers ?s1 \<noteq> [] \<and> schedule_rows ?s1 \<noteq> []"
    unfolding c1 c2 using that by simp
  have p4: "count_list (snd (load_data_on_mount u a b s) @ snd (load_data_on_mount u a' b' ?s1)) Load_members \<le> 1"
    if "members_headers ?s1 \<noteq> [] \<and> members_rows ?s1 \<noteq> []"
    unfolding c1 c2 using that by simp
  have p5: "count_list (snd (load_data_on_mount u a b s) @ snd (load_data_on_mount u a' b' ?s1)) Load_members = 2"
    if "members_rows ?s1 = []"
    unfolding c1 c2 using that m by auto
  have p6: "schedule_headers (fst (load_data_on_mount u a' b' ?s1)) = schedule_headers ?s1 \<and>
            schedule_rows (fst (load_data_on_mount u a' b' ?s1)) = schedule_rows ?s1"
    if "schedule_headers ?s1 \<noteq> [] \<and> schedule_rows ?s1 \<noteq> []"
    using that by (simp add: load_data_on_mount_schedule [of u a' b' ?s1])
  have p7: "members_headers (fst (load_data_on_mount u a' b' ?s1)) = members_headers ?s1 \<and>
            members_rows (fst (load_data_on_mount u a' b' ?s1)) = members_rows ?s1"
    if "members_headers ?s1 \<noteq> [] \<and> members_rows ?s1 \<noteq> []"
    using that by (simp add: load_data_on_mount_members [of u a' b' ?s1])
  show ?thesis
    using p1 p2 p3 p4 p5 p6 p7 by blast
qed

text \<open>
  The theorem on a fresh session. When both files are read with one row each, the first
  call loads both tables and the second call loads nothing, even though both files have
  become unreadable by then. When the members file has a header line and no rows, both
  calls load the members table.
\<close>

theorem load_data_on_mount_twice_witness:
  "snd (load_data_on_mount \<lparr>udigit = (\<lambda>c. False), uspace = (\<lambda>c. False)\<rparr>
          (Inr \<lparr>columns = [py ''Date''], iterrows = [[Str (py ''09/12/2025'')]]\<rparr>)
          (Inr \<lparr>columns = [py ''Name''], iterrows = [[Str (py ''Ann'')]]\<rparr>) State_init) =
     [Load_schedule, Load_members]
   \<and> snd (load_data_on_mount \<lparr>udigit = (\<lambda>c. False), uspace = (\<lambda>c. False)\<rparr>
          (Inl (py ''No such file'')) (Inl (py ''No such file''))
          (fst (load_data_on_mount \<lparr>udigit = (\<lambda>c. False), uspace = (\<lambda>c. False)\<rparr>
                  (Inr \<lparr>columns = [py ''Date''], iterrows = [[Str (py ''09/12/2025'')]]\<rparr>)
                  (Inr \<lparr>columns = [py ''Name''], iterrows = [[Str (py ''Ann'')]]\<rparr>) State_init))) = []
   \<and> count_list
       (snd (load_data_on_mount \<lparr>udigit = (\<lambda>c. False), uspace = (\<lambda>c. False)\<rparr>
               (Inr \<lparr>columns = [py ''Date''], iterrows = [[Str (py ''09/12/2025'')]]\<rparr>)
               (Inr \<lparr>columns = [py ''Name''], iterrows = []\<rparr>) State_init) @
        snd (load_data_on_mount \<lparr>udigit = (\<lambda>c. False), uspace = (\<lambda>c. False)\<rparr>
               (Inr \<lparr>columns = [py ''Date''], iterrows = [[Str (py ''09/12/2025'')]]\<rparr>)
               (Inr \<lparr>columns = [py ''Name''], iterrows = []\<rparr>)
               (fst (load_data_on_mount \<lparr>udigit = (\<lambda>c. False), uspace = (\<lambda>c. False)\<rparr>
                       (Inr \<lparr>columns = [py ''Date''], iterrows = [[Str (py ''09/12/2025'')]]\<rparr>)
                       (Inr \<lparr>columns = [py ''Name''], iterrows = []\<rparr>) State_init))))
       Load_members = 2"
proof -
  let ?u = "\<lparr>udigit = (\<lambda>c. False), uspace = (\<lambda>c. False)\<rparr>"
  let ?a = "Inr \<lparr>columns = [py ''Date''], iterrows = [[Str (py ''09/12/2025'')]]\<rparr>"
  let ?b = "Inr \<lparr>columns = [py ''Name''], iterrows = [[Str (py ''Ann'')]]\<rparr>"
  let ?h = "Inr \<lparr>columns = [py ''Name''], iterrows = []\<rparr>"
  let ?s1 = "fst (load_data_on_mount ?u ?a ?b State_init)"
  let ?calls2 = "snd (load_data_on_mount ?u (Inl (py ''No such file'')) (Inl (py ''No such file'')) ?s1)"
  have first: "snd (load_data_on_mount ?u ?a ?b State_init) = [Load_schedule, Load_members]"
    by (simp add: load_data_on_mount_calls State_init_def)
  have schedule: "schedule_headers ?s1 \<noteq> [] \<and> schedule_rows ?s1 \<noteq> []"
    by (simp add: load_data_on_mount_schedule State_init_def load_schedule_from_csv_def
        read_csv_safe_def)
  have members: "members_headers ?s1 \<noteq> [] \<and> members_rows ?s1 \<noteq> []"
    by (simp add: load_data_on_mount_members State_init_def load_members_from_csv_def
        read_csv_safe_def py_def)
  have "Load_schedule \<notin> set ?calls2" and "Load_members \<notin> set ?calls2"
    using schedule members
      load_data_on_mount_twice
        [of ?u "Inl (py ''No such file'')" "Inl (py ''No such file'')" ?a ?b State_init]
    by blast+
  then have "?calls2 = []"
  proof (cases ?calls2)
    case Nil
    then show ?thesis .
  next
    case (Cons c cs)
    assume "Load_schedule \<notin> set ?calls2" and "Load_members \<notin> set ?calls2"
    with Cons show ?thesis
      by (cases c) simp_all
  qed
  moreover have "members_rows (fst (load_data_on_mount ?u ?a ?h State_init)) = []"
    by (simp add: load_data_on_mount_members State_init_def load_members_from_csv_def
        read_csv_safe_def py_def)
  then have "count_list
       (snd (load_data_on_mount ?u ?a ?h State_init) @
        snd (load_data_on_mount ?u ?a ?h (fst (load_data_on_mount ?u ?a ?h State_init))))
       Load_members = 2"
    using load_data_on_mount_twice [of ?u ?a ?h ?a ?h State_init] by blast
  ultimately show ?thesis
    using first by simp
qed

end
